theory Spec2Isabelle
  imports Main "HOL-Library.Sublist" "HOL-Library.Multiset"
begin

section \<open>Python values, exceptions and string primitives\<close>

text \<open>
  The values a build descriptor can hand to \<^verbatim>\<open>setup()\<close>: the constructors cover every
  branch that \<^verbatim>\<open>to_list\<close> and \<^verbatim>\<open>to_str\<close> distinguish (None, a string, a list, another
  iterable, a value that cannot be iterated). Strings are lists of characters.
\<close>

datatype pyval =
    PNone
  | PBool bool
  | PInt int
  | PStr string
  | PList "pyval list"
  | PTuple "pyval list"
  | PDict "(pyval \<times> pyval) list"

datatype exn =
    AttributeError string
  | TypeError
  | ValueError string
  | KeyError string
  | IndexError
  | UnicodeDecodeError
  | JSONDecodeError
  | VirtualenvFailException string
  | MissingUrlException string

text \<open>Truth value of a Python object, as \<^verbatim>\<open>if x\<close> and \<^verbatim>\<open>x and y\<close> test it.\<close>

fun truthy :: "pyval \<Rightarrow> bool" where
  "truthy PNone = False"
| "truthy (PBool b) = b"
| "truthy (PInt i) = (i \<noteq> 0)"
| "truthy (PStr s) = (s \<noteq> [])"
| "truthy (PList xs) = (xs \<noteq> [])"
| "truthy (PTuple xs) = (xs \<noteq> [])"
| "truthy (PDict kvs) = (kvs \<noteq> [])"

fun is_dict :: "pyval \<Rightarrow> bool" where
  "is_dict (PDict kvs) = True"
| "is_dict _ = False"

text \<open>
  \<^verbatim>\<open>text.split(sep)\<close> for a non-empty separator: the pieces between the non-overlapping
  occurrences of \<open>sep\<close>, scanned from the left; the result is never empty. \<open>skip\<close> counts
  the characters of a matched separator that are still to be passed over, \<open>acc\<close> is the
  current piece, reversed.
\<close>

fun split_go :: "string \<Rightarrow> nat \<Rightarrow> string \<Rightarrow> string \<Rightarrow> string list" where
  "split_go sep skip acc [] = [rev acc]"
| "split_go sep (Suc k) acc (c # cs) = split_go sep k acc cs"
| "split_go sep 0 acc (c # cs) =
     (if prefix sep (c # cs) then rev acc # split_go sep (length sep - 1) [] cs
      else split_go sep 0 (c # acc) cs)"

definition py_split :: "string \<Rightarrow> string \<Rightarrow> string list" where
  "py_split text sep = split_go sep 0 [] text"

text \<open>\<^verbatim>\<open>s in t\<close> for two strings: \<open>s\<close> occurs in \<open>t\<close> as a contiguous piece.\<close>

fun py_in_str :: "string \<Rightarrow> string \<Rightarrow> bool" where
  "py_in_str s [] = (s = [])"
| "py_in_str s (c # t) = (prefix s (c # t) \<or> py_in_str s t)"

section \<open>command/extract\_dist.py\<close>

text \<open>\<^verbatim>\<open>list(var)\<close>: the elements of an iterable, TypeError for a value that has none.\<close>

fun py_list :: "pyval \<Rightarrow> exn + pyval list" where
  "py_list (PList xs) = Inr xs"
| "py_list (PTuple xs) = Inr xs"
| "py_list (PDict kvs) = Inr (map fst kvs)"
| "py_list (PStr s) = Inr (map (\<lambda>c. PStr [c]) s)"
| "py_list PNone = Inl TypeError"
| "py_list (PBool b) = Inl TypeError"
| "py_list (PInt i) = Inl TypeError"

definition to_list :: "pyval \<Rightarrow> exn + pyval list" where
  "to_list var =
     (case var of
        PNone \<Rightarrow> Inr []
      | PStr s \<Rightarrow> Inr (map PStr (py_split s [CHR 0x0A]))
      | PList xs \<Rightarrow> Inr xs
      | _ \<Rightarrow> (case py_list var of
                Inl e \<Rightarrow> Inl (ValueError ''cannot be converted to the list.'')
              | Inr xs \<Rightarrow> Inr xs))"

definition to_str :: "pyval \<Rightarrow> string" where
  "to_str var = (case var of PStr s \<Rightarrow> s | _ \<Rightarrow> ''TODO'')"

text \<open>
  The distribution object the command receives: its own attributes and those of its
  \<^verbatim>\<open>metadata\<close> object, each a dictionary from attribute name to value.
\<close>

record distribution_obj =
  attrs :: "string \<rightharpoonup> pyval"
  metadata :: "string \<rightharpoonup> pyval"

text \<open>\<^verbatim>\<open>getattr(obj, name, default)\<close> and plain attribute access \<^verbatim>\<open>obj.name\<close>.\<close>

definition getattr_default :: "(string \<rightharpoonup> 'v) \<Rightarrow> string \<Rightarrow> 'v \<Rightarrow> 'v" where
  "getattr_default obj name dflt = (case obj name of None \<Rightarrow> dflt | Some v \<Rightarrow> v)"

text \<open>\<^verbatim>\<open>d.get(key, default)\<close> on a dictionary.\<close>

definition dict_get :: "('k \<rightharpoonup> 'v) \<Rightarrow> 'k \<Rightarrow> 'v \<Rightarrow> 'v" where
  "dict_get d key dflt = (case d key of None \<Rightarrow> dflt | Some v \<Rightarrow> v)"

definition getattr_plain :: "(string \<rightharpoonup> 'v) \<Rightarrow> string \<Rightarrow> exn + 'v" where
  "getattr_plain obj name = (case obj name of None \<Rightarrow> Inl (AttributeError name) | Some v \<Rightarrow> Inr v)"

definition list_attrs :: "string list" where
  "list_attrs = [''setup_requires'', ''tests_require'', ''install_requires'', ''conflicts'',
                 ''packages'', ''py_modules'']"

definition str_attrs :: "string list" where
  "str_attrs = [''url'', ''long_description'', ''description'', ''license'']"

text \<open>The first loop of \<^verbatim>\<open>__init__\<close>: it stops at the first attribute that \<^verbatim>\<open>to_list\<close> rejects.\<close>

fun coerce_lists :: "string list \<Rightarrow> distribution_obj \<Rightarrow> exn + distribution_obj" where
  "coerce_lists [] d = Inr d"
| "coerce_lists (a # as) d =
     (case to_list (getattr_default (attrs d) a (PList [])) of
        Inl e \<Rightarrow> Inl e
      | Inr xs \<Rightarrow> coerce_lists as (d\<lparr>attrs := (attrs d)(a \<mapsto> PList xs)\<rparr>))"

text \<open>The second loop: free-text attributes are read from the metadata object.\<close>

fun coerce_strs :: "string list \<Rightarrow> distribution_obj \<Rightarrow> distribution_obj" where
  "coerce_strs [] d = d"
| "coerce_strs (a # as) d =
     coerce_strs as (d\<lparr>attrs := (attrs d)(a \<mapsto> PStr (to_str (getattr_default (metadata d) a PNone)))\<rparr>)"

text \<open>
  \<^verbatim>\<open>extract_dist.__init__\<close>, after \<^verbatim>\<open>Command.__init__\<close> has stored the distribution.
  The last test reads \<^verbatim>\<open>self.distribution.entry_points\<close> without a default.
\<close>

definition extract_dist_init :: "distribution_obj \<Rightarrow> exn + distribution_obj" where
  "extract_dist_init d0 =
     (case coerce_lists list_attrs d0 of
        Inl e \<Rightarrow> Inl e
      | Inr d1 \<Rightarrow>
          (let d2 = coerce_strs str_attrs d1 in
           case to_list (getattr_default (metadata d2) ''classifiers'' (PList [])) of
             Inl e \<Rightarrow> Inl e
           | Inr cs \<Rightarrow>
               (let d3 = d2\<lparr>attrs := (attrs d2)(''classifiers'' \<mapsto> PList cs)\<rparr> in
                case getattr_plain (attrs d3) ''entry_points'' of
                  Inl e \<Rightarrow> Inl e
                | Inr ep \<Rightarrow>
                    if truthy ep \<and> \<not> is_dict ep
                    then Inr (d3\<lparr>attrs := (attrs d3)(''entry_points'' \<mapsto> PNone)\<rparr>)
                    else Inr d3)))"

text \<open>
  A descriptor for the archive \<^verbatim>\<open>spam-1.0\<close> that calls
  \<^verbatim>\<open>setup(name='spam', version='1.0', install_requires=[], description='Spam')\<close>:
  setuptools leaves \<^verbatim>\<open>packages\<close> and \<^verbatim>\<open>entry_points\<close> at None, the metadata object has no
  home page.
\<close>

definition spam_raw :: distribution_obj where
  "spam_raw =
     \<lparr>attrs = [''install_requires'' \<mapsto> PList [], ''packages'' \<mapsto> PNone,
               ''entry_points'' \<mapsto> PNone],
      metadata = [''name'' \<mapsto> PStr ''spam'', ''version'' \<mapsto> PStr ''1.0'',
                  ''description'' \<mapsto> PStr ''Spam'', ''url'' \<mapsto> PNone]\<rparr>"

text \<open>
  The class \<^verbatim>\<open>extract_dist\<close> as a namespace: the attributes its body binds. The base
  class \<^verbatim>\<open>Command\<close> binds methods and \<^verbatim>\<open>sub_commands\<close> only, so a name that is missing
  here and is not one of those is missing from the class.
\<close>

datatype classattr = CNone | CVal pyval | CMethod | CDist distribution_obj

definition extract_dist_class :: "string \<rightharpoonup> classattr" where
  "extract_dist_class =
     [''description'' \<mapsto> CVal (PStr ''Assigns self.distribution to class attribute to make it accessible from outside a class.''),
      ''user_options'' \<mapsto> CVal (PList []),
      ''class_dist'' \<mapsto> CNone,
      ''__init__'' \<mapsto> CMethod,
      ''initialize_options'' \<mapsto> CMethod,
      ''finalize_options'' \<mapsto> CMethod,
      ''run'' \<mapsto> CMethod,
      ''run_subprocess'' \<mapsto> CMethod]"

text \<open>\<^verbatim>\<open>extract_dist.run\<close>: \<^verbatim>\<open>extract_dist.class_dist = self.distribution\<close>.\<close>

definition extract_dist_run :: "distribution_obj \<Rightarrow> (string \<rightharpoonup> classattr) \<Rightarrow> (string \<rightharpoonup> classattr)" where
  "extract_dist_run self_distribution cls = cls(''class_dist'' \<mapsto> CDist self_distribution)"

section \<open>pyp2rpm/module\_runners.py\<close>

text \<open>
  The process-wide state an in-process run touches: working directory, module search
  path, argument vector, and the attributes of the class \<^verbatim>\<open>extract_dist\<close>.
\<close>

record process =
  cwd :: string
  sys_path :: "string list"
  sys_argv :: "string list"
  extract_dist_cls :: "string \<rightharpoonup> classattr"

text \<open>The fields \<^verbatim>\<open>ModuleRunner.__init__\<close> stores.\<close>

record module_runner =
  dirname :: string
  filename :: string
  args :: "string list"

text \<open>\<^verbatim>\<open>not_suffixed\<close> returns None (no \<^verbatim>\<open>return\<close>) when the name does not end in \<^verbatim>\<open>py\<close>.\<close>

definition not_suffixed :: "string \<Rightarrow> string option" where
  "not_suffixed module =
     (if suffix ''py'' module then Some (take (length module - 3) module) else None)"

text \<open>
  What \<^verbatim>\<open>runpy.run_module\<close> does with a descriptor whose argument vector selects the
  injected command: \<^verbatim>\<open>setup()\<close> builds the distribution object (\<open>setup_call\<close>, which may
  raise), distutils instantiates \<^verbatim>\<open>extract_dist\<close> on it (\<^verbatim>\<open>__init__\<close>) and calls its
  \<^verbatim>\<open>run\<close>. A module name of None is rejected by \<^verbatim>\<open>runpy\<close>.
\<close>

definition run_descriptor ::
  "(process \<Rightarrow> exn + distribution_obj) \<Rightarrow> string option \<Rightarrow> process \<Rightarrow> exn + process" where
  "run_descriptor setup_call mod_name p =
     (case mod_name of
        None \<Rightarrow> Inl TypeError
      | Some n \<Rightarrow>
          (case setup_call p of
             Inl e \<Rightarrow> Inl e
           | Inr d0 \<Rightarrow>
               (case extract_dist_init d0 of
                  Inl e \<Rightarrow> Inl e
                | Inr d \<Rightarrow> Inr (p\<lparr>extract_dist_cls := extract_dist_run d (extract_dist_cls p)\<rparr>))))"

text \<open>
  \<^verbatim>\<open>ModuleRunner.run\<close>. Modelled from the spec: \<^verbatim>\<open>utils.ChangeDir\<close> is not among the
  sources; the run happens with the working directory changed to \<^verbatim>\<open>dirname\<close>, and the
  previous directory is restored when the block is left. The state after an exception
  that escapes is not tracked.
\<close>

definition ModuleRunner_run ::
  "(string option \<Rightarrow> process \<Rightarrow> exn + process) \<Rightarrow> module_runner \<Rightarrow> process \<Rightarrow> exn + process" where
  "ModuleRunner_run run_module self p =
     (let p1 = p\<lparr>cwd := dirname self\<rparr>;
          p2 = p1\<lparr>sys_path := dirname self # sys_path p1\<rparr>;
          p3 = p2\<lparr>sys_argv := take 1 (sys_argv p2) @ args self\<rparr>
      in case run_module (not_suffixed (filename self)) p3 of
           Inl e \<Rightarrow> Inl e
         | Inr p4 \<Rightarrow> Inr (p4\<lparr>cwd := cwd p\<rparr>))"

text \<open>\<^verbatim>\<open>ModuleRunner.results\<close>: \<^verbatim>\<open>return extract_dist.extract_dist.class_metadata\<close>.\<close>

definition ModuleRunner_results :: "process \<Rightarrow> exn + classattr" where
  "ModuleRunner_results p = getattr_plain (extract_dist_cls p) ''class_metadata''"

text \<open>
  The sibling reader in \<^verbatim>\<open>SetupPyMetadataExtractor.__init__\<close>:
  \<^verbatim>\<open>self.distribution = extract_dist.extract_dist.class_dist\<close>.
\<close>

definition SetupPy_read_class_dist :: "process \<Rightarrow> exn + classattr" where
  "SetupPy_read_class_dist p = getattr_plain (extract_dist_cls p) ''class_dist''"

text \<open>A fresh interpreter, and a runner for the unpacked archive \<^verbatim>\<open>spam-1.0\<close>.\<close>

definition fresh_process :: process where
  "fresh_process =
     \<lparr>cwd = ''/home/user'', sys_path = [], sys_argv = [''pyp2rpm''],
      extract_dist_cls = extract_dist_class\<rparr>"

definition spam_runner :: module_runner where
  "spam_runner =
     \<lparr>dirname = ''/tmp/tmpx/spam-1.0'', filename = ''setup.py'',
      args = [''--quiet'', ''--command-packages'', ''command'', ''extract_dist'']\<rparr>"

definition spam_setup_call :: "process \<Rightarrow> exn + distribution_obj" where
  "spam_setup_call p = Inr spam_raw"

text \<open>
  Out-of-process mode. What the operating system and the standard library contribute is
  taken as given: the outcome of the spawned shell command (\<open>popen\<close>, from the command
  line and the working directory), \<^verbatim>\<open>bytes.decode('utf-8')\<close> and \<^verbatim>\<open>json.loads\<close> (both
  None where Python raises), and the two constants of the package.
\<close>

datatype json =
    JNull
  | JBool bool
  | JNum int
  | JStr string
  | JArr "json list"
  | JObj "(string \<times> json) list"

record completed =
  returncode :: int
  stdout :: string
  stderr :: string

record sys_lib =
  popen :: "string \<Rightarrow> string \<Rightarrow> completed"
  utf8_decode :: "string \<Rightarrow> string option"
  json_loads :: "string \<Rightarrow> json option"
  main_dir :: string
  PYTHON2_INTERPRETER :: string

text \<open>
  What a call leaves behind besides its result: the log records it writes, by level, and
  the temporary directories it creates and removes.
\<close>

datatype effect = Debug string | Warning string | Error string | Mkdtemp string | Rmtree string

text \<open>\<^verbatim>\<open>' '.join(xs)\<close>, and more generally \<^verbatim>\<open>sep.join(xs)\<close>.\<close>

fun py_join :: "string \<Rightarrow> string list \<Rightarrow> string" where
  "py_join sep [] = []"
| "py_join sep [x] = x"
| "py_join sep (x # y # ys) = x @ sep @ py_join sep (y # ys)"

text \<open>
  An \<^verbatim>\<open>ExternModuleRunner\<close>: the inherited fields and the attribute \<^verbatim>\<open>_result\<close>, None
  while it has not been assigned.
\<close>

record extern_runner = module_runner +
  result_attr :: "json option"

definition json_marker :: string where
  "json_marker = ''extracted json data:'' @ [CHR 0x0A]"

definition command_line :: "sys_lib \<Rightarrow> 'a module_runner_scheme \<Rightarrow> string" where
  "command_line lib self =
     py_join '' '' ([''PYTHONPATH='' @ main_dir lib, PYTHON2_INTERPRETER lib, filename self]
                    @ args self)"

text \<open>
  \<^verbatim>\<open>ExternModuleRunner.run\<close>: the log records written and either the exception that
  escapes or the runner with \<^verbatim>\<open>_result\<close> assigned. The text of the error record stands
  for the formatted message, which quotes both streams.
\<close>

definition ExternModuleRunner_run ::
  "sys_lib \<Rightarrow> extern_runner \<Rightarrow> effect list \<times> (exn + extern_runner)" where
  "ExternModuleRunner_run lib self =
     (let proc = popen lib (command_line lib self) (dirname self);
          logged = (if returncode proc \<noteq> 0
                    then [Error (''Subprocess failed, stdout '' @ stdout proc
                                 @ '', stderr: '' @ stderr proc)]
                    else [])
      in case utf8_decode lib (stdout proc) of
           None \<Rightarrow> (logged, Inl UnicodeDecodeError)
         | Some text \<Rightarrow>
             (case json_loads lib (last (py_split text json_marker)) of
                None \<Rightarrow> (logged, Inl JSONDecodeError)
              | Some j \<Rightarrow> (logged, Inr (self\<lparr>result_attr := Some j\<rparr>))))"

text \<open>\<^verbatim>\<open>ExternModuleRunner.results\<close>: the AttributeError of an unassigned \<^verbatim>\<open>_result\<close> becomes None.\<close>

definition ExternModuleRunner_results :: "extern_runner \<Rightarrow> json option" where
  "ExternModuleRunner_results self = result_attr self"

text \<open>
  A subprocess that prints the marker and an empty JSON object, then exits with status 1,
  and one that dies with a traceback before printing anything. The two library functions
  are given on the texts that occur here: ASCII bytes decode to themselves, \<^verbatim>\<open>{}\<close> is the
  empty object, and the empty text is not JSON.
\<close>

definition ascii_decode :: "string \<Rightarrow> string option" where
  "ascii_decode bs = (if list_all (\<lambda>c. of_char c < (128 :: nat)) bs then Some bs else None)"

definition loads_empty_object :: "string \<Rightarrow> json option" where
  "loads_empty_object s = (if s = ''{}'' then Some (JObj []) else None)"

definition exit1_with_json :: "string \<Rightarrow> string \<Rightarrow> completed" where
  "exit1_with_json cmd dir =
     \<lparr>returncode = 1, stdout = json_marker @ ''{}'', stderr = ''warning: something failed''\<rparr>"

definition exit1_no_output :: "string \<Rightarrow> string \<Rightarrow> completed" where
  "exit1_no_output cmd dir =
     \<lparr>returncode = 1, stdout = [], stderr = ''Traceback (most recent call last):''\<rparr>"

definition lib_exit1_with_json :: sys_lib where
  "lib_exit1_with_json =
     \<lparr>popen = exit1_with_json, utf8_decode = ascii_decode, json_loads = loads_empty_object,
      main_dir = ''/usr/lib/pyp2rpm'', PYTHON2_INTERPRETER = ''python2''\<rparr>"

definition lib_exit1_no_output :: sys_lib where
  "lib_exit1_no_output =
     \<lparr>popen = exit1_no_output, utf8_decode = ascii_decode, json_loads = loads_empty_object,
      main_dir = ''/usr/lib/pyp2rpm'', PYTHON2_INTERPRETER = ''python2''\<rparr>"

definition spam_extern_runner :: extern_runner where
  "spam_extern_runner =
     \<lparr>dirname = ''/tmp/tmpx/spam-1.0'', filename = ''setup.py'',
      args = [''--quiet'', ''--command-packages'', ''command'', ''extract_dist''],
      result_attr = None\<rparr>"

section \<open>pyp2rpm/metadata\_extractors.py\<close>

subsection \<open>The metadata record and the collaborators\<close>

text \<open>
  The values stored in a metadata record: None, a flag, a string, a list or a set of
  strings, and a dependency list (each entry a list \<^verbatim>\<open>[label, name, ...]\<close>).
\<close>

datatype field =
    FNone
  | FBool bool
  | FStr string
  | FList "string list"
  | FSet "string set"
  | FDeps "string list list"

type_synonym package_data = "string \<rightharpoonup> field"

text \<open>
  Modelled from the spec: the class \<^verbatim>\<open>PackageData\<close> (\<^verbatim>\<open>pyp2rpm.package_data\<close>) is not among the
  sources. The record is the dictionary \<^verbatim>\<open>data.data\<close> the extractor reads; it is created
  with the identity fields; a field that has no value reads as the sentinel (the extractor
  compares with \<^verbatim>\<open>"TODO:"\<close>); \<^verbatim>\<open>set_from\<close> has the two update modes of the merge policy:
  with \<^verbatim>\<open>update\<close> the given value always wins, without it only fields that have no value
  yet are written.
\<close>

definition PackageData :: "string \<Rightarrow> string \<Rightarrow> string \<Rightarrow> string \<Rightarrow> package_data" where
  "PackageData local_file name pkg_name version =
     [''local_file'' \<mapsto> FStr local_file, ''name'' \<mapsto> FStr name,
      ''pkg_name'' \<mapsto> FStr pkg_name, ''version'' \<mapsto> FStr version]"



definition set_from :: "package_data \<Rightarrow> (string \<rightharpoonup> field) \<Rightarrow> bool \<Rightarrow> package_data" where
  "set_from data data_dict update = (if update then data ++ data_dict else data_dict ++ data)"

text \<open>The fields \<^verbatim>\<open>LocalMetadataExtractor.__init__\<close> stores (the archive and the name
  convertor are collaborators, below).\<close>

record extractor =
  local_file :: string
  name :: string
  version :: string
  rpm_name :: "string option"
  venv :: bool
  base_python_version :: string
  metadata_extension :: bool

text \<open>A registry client: \<^verbatim>\<open>client.release_data(name, version)\<close> returns a dictionary or raises.\<close>

record client =
  release_data :: "string \<Rightarrow> string \<Rightarrow> exn + (string \<rightharpoonup> field)"

text \<open>
  Constants of \<^verbatim>\<open>pyp2rpm.settings\<close> and functions of other modules of the package that are
  not among the sources, taken as parameters: the name convertor's \<^verbatim>\<open>rpm_name\<close> (its second
  argument is optional), the two dependency parsers (likewise), the helpers of \<^verbatim>\<open>utils\<close>,
  and \<^verbatim>\<open>package_getters.get_url\<close>, which asks the client for the download URL and checksum
  and may raise.
\<close>

record settings =
  LICENSE_FILES :: "string list"
  PYPI_USABLE_DATA :: "string list"
  DEFAULT_PYTHON_VERSION :: string
  DEFAULT_ADDITIONAL_VERSION :: string
  EXTENSION_SUFFIXES :: "string list"
  DOC_FILES_RE :: "string list"
  SPHINX_DIR_RE :: string

record helpers =
  nc_rpm_name :: "string \<Rightarrow> string option \<Rightarrow> string"
  deps_from_pyp_format :: "string list \<Rightarrow> bool \<Rightarrow> string list list"
  deps_from_pydit_json :: "string list \<Rightarrow> bool option \<Rightarrow> string list list"
  versions_from_trove :: "string list \<Rightarrow> string list"
  remove_major_minor_suffix :: "field \<Rightarrow> field"
  license_from_trove :: "field \<Rightarrow> field"
  get_url :: "client \<Rightarrow> string \<Rightarrow> string \<Rightarrow> exn + field \<times> field"


type_synonym extraction = "effect list \<times> (exn + package_data)"

subsection \<open>The two overlays\<close>

text \<open>The dictionary the registry overlay merges into the record.\<close>

definition pypi_data_dict ::
  "settings \<Rightarrow> helpers \<Rightarrow> field \<Rightarrow> field \<Rightarrow> (string \<rightharpoonup> field) \<Rightarrow> (string \<rightharpoonup> field)" where
  "pypi_data_dict st h url md5_digest release =
     (let data_dict = [''url'' \<mapsto> url, ''md5'' \<mapsto> md5_digest];
          data_dict = fold (\<lambda>data_field m. m(data_field \<mapsto> dict_get release data_field (FStr [])))
                        (PYPI_USABLE_DATA st) data_dict
      in data_dict(''license'' \<mapsto> license_from_trove h (dict_get release ''classifiers'' (FStr []))))"

text \<open>
  \<^verbatim>\<open>pypi_metadata_extension(extraction_fce)\<close>, the function \<^verbatim>\<open>inner(self, client=None)\<close>.
  The \<^verbatim>\<open>try\<close> block holds the test for a missing client and the call of \<^verbatim>\<open>release_data\<close>;
  the call of \<^verbatim>\<open>get_url\<close> comes after it.
\<close>

definition pypi_metadata_extension ::
  "settings \<Rightarrow> helpers \<Rightarrow> ('a extractor_scheme \<Rightarrow> extraction) \<Rightarrow>
   'a extractor_scheme \<Rightarrow> client option \<Rightarrow> extraction" where
  "pypi_metadata_extension st h extraction_fce self cl =
     (case extraction_fce self of
        (log, Inl e) \<Rightarrow> (log, Inl e)
      | (log, Inr data) \<Rightarrow>
          (let warned = log @ [Warning ''Some kind of error while communicating with client'']
           in case cl of
                None \<Rightarrow> (warned, Inr data)
              | Some c \<Rightarrow>
                  (case release_data c (name self) (version self) of
                     Inl e \<Rightarrow> (warned, Inr data)
                   | Inr release \<Rightarrow>
                       (case get_url h c (name self) (version self) of
                          Inl e \<Rightarrow> (log, Inl e)
                        | Inr (url, md5_digest) \<Rightarrow>
                            (log, Inr (set_from data
                                         (pypi_data_dict st h url md5_digest release) True))))))"


subsection \<open>LocalMetadataExtractor\<close>

text \<open>\<^verbatim>\<open>str.lower()\<close> on ASCII letters; every other character is left as it is.\<close>

definition lower_char :: "char \<Rightarrow> char" where
  "lower_char c =
     (case map_of (zip ''ABCDEFGHIJKLMNOPQRSTUVWXYZ'' ''abcdefghijklmnopqrstuvwxyz'') c of
        None \<Rightarrow> c
      | Some l \<Rightarrow> l)"

definition py_lower :: "string \<Rightarrow> string" where
  "py_lower s = map lower_char s"

text \<open>\<^verbatim>\<open>separate_license_files\<close>: two comprehensions over the same candidates.\<close>

definition separate_license_files :: "settings \<Rightarrow> string list \<Rightarrow> string list \<times> string list" where
  "separate_license_files st doc_files =
     (let other = filter (\<lambda>doc. list_all (\<lambda>s. \<not> py_in_str s (py_lower doc)) (LICENSE_FILES st))
                    doc_files;
          licenses = filter (\<lambda>doc. list_ex (\<lambda>s. py_in_str s (py_lower doc)) (LICENSE_FILES st))
                       doc_files
      in (other, licenses))"







subsection \<open>More string primitives\<close>

text \<open>
  \<^verbatim>\<open>text.find(sub, start)\<close>: the lowest index from \<open>start\<close> on at which \<open>sub\<close> begins, None
  for Python's \<open>-1\<close>.
\<close>

fun find_at :: "string \<Rightarrow> string \<Rightarrow> nat \<Rightarrow> nat option" where
  "find_at sub [] k = (if sub = [] then Some k else None)"
| "find_at sub (c # cs) k = (if prefix sub (c # cs) then Some k else find_at sub cs (Suc k))"

definition py_find :: "string \<Rightarrow> string \<Rightarrow> nat \<Rightarrow> nat option" where
  "py_find text sub start =
     (if start \<le> length text then find_at sub (drop start text) start else None)"






subsection \<open>Shared by both strategies\<close>

text \<open>
  \<^verbatim>\<open>name_convert_deps_list\<close>: \<^verbatim>\<open>dep[1]\<close> is replaced in every entry; an entry with fewer
  than two items raises IndexError.
\<close>

fun name_convert_deps_list :: "settings \<Rightarrow> helpers \<Rightarrow> string list list \<Rightarrow> exn + string list list" where
  "name_convert_deps_list st h [] = Inr []"
| "name_convert_deps_list st h (dep # deps) =
     (if length dep < 2 then Inl IndexError
      else case name_convert_deps_list st h deps of
             Inl e \<Rightarrow> Inl e
           | Inr rest \<Rightarrow>
               Inr (dep[1 := nc_rpm_name h (dep ! 1) (Some (DEFAULT_PYTHON_VERSION st))] # rest))"

text \<open>
  The regular expressions of \<^verbatim>\<open>process_description\<close>, character by character (the first
  two are raw strings in the source, the others contain real carriage returns and line
  feeds).
\<close>

definition BS :: string where "BS = [CHR 0x5C]"
definition CR :: string where "CR = [CHR 0x0D]"
definition LF :: string where "LF = [CHR 0x0A]"

definition re_whitespaces :: string where
  "re_whitespaces = BS @ ''s+''"

definition re_urls :: string where
  "re_urls = BS @ ''w+:'' @ BS @ ''/{2}['' @ BS @ ''d'' @ BS @ ''w-]+('' @ BS @ ''.['' @ BS @ ''d''
             @ BS @ ''w-]+)*(?:(?:'' @ BS @ ''/[^'' @ BS @ ''s/]*))*''"

definition re_delimiters :: string where
  "re_delimiters = ''(#|-|=|~|`)*''"

definition re_short_lines :: string where
  "re_short_lines = ''(('' @ CR @ ''?'' @ LF @ '')|^).{0,8}(('' @ CR @ ''?'' @ LF @ '')|$)''"

definition re_tags :: string where
  "re_tags = ''(('' @ CR @ ''*.. image::|:target:) https?|(:align:|:alt:))[^'' @ LF @ '']*'' @ LF"

text \<open>
  The standard library functions the text processing calls, taken as parameters:
  \<^verbatim>\<open>re.sub(pattern, repl, text)\<close>, \<^verbatim>\<open>re.escape\<close> and \<^verbatim>\<open>textwrap.wrap(text, width)\<close>.
\<close>

record text_lib =
  re_sub :: "string \<Rightarrow> string \<Rightarrow> string \<Rightarrow> string"
  re_escape :: "string \<Rightarrow> string"
  textwrap_wrap :: "string \<Rightarrow> nat \<Rightarrow> string list"

text \<open>\<^verbatim>\<open>process_description\<close>, applied to the text that the decorated function returns.\<close>

definition process_description :: "text_lib \<Rightarrow> string \<Rightarrow> string" where
  "process_description tx raw =
     (let clear_description =
            re_sub tx re_whitespaces '' ''
              (re_sub tx re_urls []
                 (re_sub tx re_delimiters []
                    (re_sub tx re_short_lines []
                       (re_sub tx re_tags [] raw))))
      in py_join '' '' (textwrap_wrap tx clear_description 80))"

text \<open>
  The archive accessor (\<^verbatim>\<open>pyp2rpm.archive\<close>), taken as given. \<^verbatim>\<open>get_files_re\<close> has the
  optional arguments \<^verbatim>\<open>full_path\<close> and \<^verbatim>\<open>ignorecase\<close>, \<^verbatim>\<open>get_directories_re\<close> has
  \<^verbatim>\<open>full_path\<close>; None stands for an argument that is left out.
\<close>

record archive =
  has_file_with_suffix :: "string list \<Rightarrow> bool"
  get_files_re :: "string \<Rightarrow> bool option \<Rightarrow> bool option \<Rightarrow> string list"
  get_directories_re :: "string \<Rightarrow> bool option \<Rightarrow> string list"

subsection \<open>SetupPyMetadataExtractor\<close>

text \<open>
  The captured distribution as the extractor reads it, with the types that
  \<^verbatim>\<open>extract_dist.__init__\<close> leaves: lists for the list-like fields, strings for the
  free-text fields; \<^verbatim>\<open>entry_points\<close> is None, empty or a dictionary; \<^verbatim>\<open>scripts\<close> and
  \<^verbatim>\<open>test_suite\<close> are not coerced and may be None.
\<close>

record distribution =
  setup_requires :: "string list"
  tests_require :: "string list"
  install_requires :: "string list"
  conflicts :: "string list"
  packages :: "string list"
  py_modules :: "string list"
  classifiers :: "string list"
  url :: string
  long_description :: string
  description :: string
  license :: string
  entry_points :: pyval
  scripts :: "string list option"
  test_suite :: "string option"











definition SetupPy_long_description :: "text_lib \<Rightarrow> distribution \<Rightarrow> string" where
  "SetupPy_long_description tx dist = process_description tx (long_description dist)"

text \<open>\<^verbatim>\<open>description\<close>: \<^verbatim>\<open>cut = self.long_description.find('\n', 80 * 8)\<close>.\<close>

definition SetupPy_description :: "text_lib \<Rightarrow> distribution \<Rightarrow> string" where
  "SetupPy_description tx dist =
     (case py_find (SetupPy_long_description tx dist) LF (80 * 8) of
        Some cut_index \<Rightarrow> take cut_index (SetupPy_long_description tx dist) @ LF @ ''...''
      | None \<Rightarrow> SetupPy_long_description tx dist)"







subsection \<open>WheelMetadataExtractor\<close>

text \<open>
  A requirement group of the wheel's JSON metadata: the optional \<^verbatim>\<open>environment\<close> marker and
  the \<^verbatim>\<open>requires\<close> list (None when the key is missing, which \<^verbatim>\<open>requires['requires']\<close>
  answers with KeyError). The metadata maps a category label to its groups.
\<close>

record req_group =
  environment :: "string option"
  requires :: "string list option"

type_synonym json_metadata = "string \<rightharpoonup> req_group list"

text \<open>\<^verbatim>\<open>'win' in requires.get('environment', {})\<close>.\<close>

definition win_in_environment :: "req_group \<Rightarrow> bool" where
  "win_in_environment g = (case environment g of None \<Rightarrow> False | Some env \<Rightarrow> py_in_str ''win'' env)"

text \<open>The inner and the outer loop of \<^verbatim>\<open>get_requires\<close>, with the list built so far.\<close>

fun extend_requires :: "req_group list \<Rightarrow> string list \<Rightarrow> exn + string list" where
  "extend_requires [] extracted_requires = Inr extracted_requires"
| "extend_requires (g # gs) extracted_requires =
     (if win_in_environment g then extend_requires gs extracted_requires
      else case requires g of
             None \<Rightarrow> Inl (KeyError ''requires'')
           | Some rs \<Rightarrow> extend_requires gs (extracted_requires @ rs))"

fun get_requires_loop :: "json_metadata \<Rightarrow> string list \<Rightarrow> string list \<Rightarrow> exn + string list" where
  "get_requires_loop meta [] extracted_requires = Inr extracted_requires"
| "get_requires_loop meta (requires_name # names) extracted_requires =
     (case extend_requires (dict_get meta requires_name []) extracted_requires of
        Inl e \<Rightarrow> Inl e
      | Inr extracted \<Rightarrow> get_requires_loop meta names extracted)"

definition get_requires :: "json_metadata \<Rightarrow> string list \<Rightarrow> exn + string list" where
  "get_requires meta requires_types = get_requires_loop meta requires_types []"

definition append_setuptools :: "string list \<Rightarrow> string list" where
  "append_setuptools reqs = (if ''setuptools'' \<notin> set reqs then reqs @ [''setuptools''] else reqs)"

definition Wheel_run_requires :: "json_metadata \<Rightarrow> exn + string list" where
  "Wheel_run_requires meta =
     (case get_requires meta [''run_requires'', ''meta_requires''] of
        Inl e \<Rightarrow> Inl e
      | Inr run_requires \<Rightarrow> Inr (append_setuptools run_requires))"

definition Wheel_runtime_deps :: "settings \<Rightarrow> helpers \<Rightarrow> json_metadata \<Rightarrow> exn + string list list" where
  "Wheel_runtime_deps st h meta =
     (case Wheel_run_requires meta of
        Inl e \<Rightarrow> Inl e
      | Inr run_requires \<Rightarrow> name_convert_deps_list st h (deps_from_pydit_json h run_requires None))"



subsection \<open>Sample inputs\<close>

text \<open>
  Settings with the license markers of the specification's example; the other constants
  are placeholders of the right shape.
\<close>

definition spec_settings :: settings where
  "spec_settings =
     \<lparr>LICENSE_FILES = [''license'', ''copying''],
      PYPI_USABLE_DATA = [''description'', ''summary'', ''license'', ''home_page'', ''requires''],
      DEFAULT_PYTHON_VERSION = ''2'',
      DEFAULT_ADDITIONAL_VERSION = ''3'',
      EXTENSION_SUFFIXES = [''.c'', ''.cpp'', ''.pyx''],
      DOC_FILES_RE = [''README.*'', ''LICENSE.*'', ''COPYING.*''],
      SPHINX_DIR_RE = ''[^/]+/docs?''\<rparr>"

text \<open>
  Collaborators for the examples: a name convertor that prefixes \<^verbatim>\<open>python-\<close>, parsers that
  turn a bare name into one entry \<^verbatim>\<open>[label, name]\<close>, and a registry whose URL lookup fails.
\<close>

definition bare_requires :: "string \<Rightarrow> string list \<Rightarrow> string list list" where
  "bare_requires label reqs = map (\<lambda>r. [label, r]) reqs"

definition sample_helpers :: helpers where
  "sample_helpers =
     \<lparr>nc_rpm_name = (\<lambda>n v. ''python-'' @ n),
      deps_from_pyp_format =
        (\<lambda>reqs runtime. bare_requires (if runtime then ''Requires'' else ''BuildRequires'') reqs),
      deps_from_pydit_json =
        (\<lambda>reqs runtime.
           bare_requires (if runtime = Some False then ''BuildRequires'' else ''Requires'') reqs),
      versions_from_trove = (\<lambda>cs. []),
      remove_major_minor_suffix = (\<lambda>sc. sc),
      license_from_trove = (\<lambda>cs. FStr ''TODO:''),
      get_url = (\<lambda>c n v. Inl (MissingUrlException ''Url of source archive not found.''))\<rparr>"

definition spam_client :: client where
  "spam_client =
     \<lparr>release_data =
        (\<lambda>n v. Inr [''summary'' \<mapsto> FStr ''Spam'', ''home_page'' \<mapsto> FStr ''http://spam.example''])\<rparr>"

definition spam_extractor :: extractor where
  "spam_extractor =
     \<lparr>local_file = ''spam-1.0.tar.gz'', name = ''spam'', version = ''1.0'', rpm_name = None,
      venv = True, base_python_version = ''2'', metadata_extension = False\<rparr>"

text \<open>A base extraction that returns the freshly created record.\<close>

definition bare_extraction :: "extractor \<Rightarrow> extraction" where
  "bare_extraction self =
     ([], Inr (PackageData (local_file self) (name self) (''python-'' @ name self) (version self)))"


text \<open>
  Wheel metadata with three groups of runtime requirements: one without a marker, one for
  Windows only (\<^verbatim>\<open>sys_platform == "win32"\<close>) and one for every platform but Windows
  (\<^verbatim>\<open>sys_platform != "win32"\<close>).
\<close>

definition win32_marker :: "string \<Rightarrow> string" where
  "win32_marker op = ''sys_platform '' @ op @ '' '' @ [CHR 0x22] @ ''win32'' @ [CHR 0x22]"

definition ipython_metadata :: json_metadata where
  "ipython_metadata =
     [''run_requires'' \<mapsto>
        [\<lparr>environment = None, requires = Some [''decorator'', ''pickleshare'']\<rparr>,
         \<lparr>environment = Some (win32_marker ''==''), requires = Some [''colorama'']\<rparr>,
         \<lparr>environment = Some (win32_marker ''!=''), requires = Some [''pexpect'']\<rparr>]]"







subsection \<open>Predicates used in the statements\<close>


section \<open>Properties\<close>

subsection \<open>Coercion of the captured fields\<close>












lemma spam_init_completes: "\<not> isl (extract_dist_init spam_raw)"
  by (simp add: extract_dist_init_def spam_raw_def list_attrs_def str_attrs_def to_list_def
      to_str_def getattr_default_def getattr_plain_def)


subsection \<open>The in-process handoff slot\<close>

lemma extract_dist_class_no_class_metadata: "extract_dist_class ''class_metadata'' = None"
  by (simp add: extract_dist_class_def)

lemma ModuleRunner_run_cls:
  assumes "ModuleRunner_run (run_descriptor setup_call) self p = Inr p'"
  shows "\<exists>d. extract_dist_cls p' = extract_dist_run d (extract_dist_cls p)"
  using assms
  by (auto simp: ModuleRunner_run_def run_descriptor_def Let_def split: sum.splits option.splits)

text \<open>
  C1. After a completed in-process run the injected command has stored the captured
  distribution under \<^verbatim>\<open>class_dist\<close>, where \<^verbatim>\<open>SetupPyMetadataExtractor\<close> reads it; the
  \<^verbatim>\<open>results\<close> property of \<^verbatim>\<open>ModuleRunner\<close> reads \<^verbatim>\<open>class_metadata\<close>, which nothing binds, and
  raises AttributeError instead of returning the captured distribution.
\<close>

theorem ModuleRunner_results_misses_handoff:
  assumes "ModuleRunner_run (run_descriptor setup_call) self p = Inr p'"
    and "extract_dist_cls p ''class_metadata'' = None"
  shows "ModuleRunner_results p' = Inl (AttributeError ''class_metadata'')
       \<and> (\<exists>d. SetupPy_read_class_dist p' = Inr (CDist d))"
proof -
  from ModuleRunner_run_cls [OF assms(1)] obtain d where
    "extract_dist_cls p' = extract_dist_run d (extract_dist_cls p)" ..
  with assms(2) show ?thesis
    by (simp add: ModuleRunner_results_def SetupPy_read_class_dist_def getattr_plain_def
        extract_dist_run_def)
qed

theorem ModuleRunner_results_misses_handoff_witness:
  "\<not> isl (ModuleRunner_run (run_descriptor spam_setup_call) spam_runner fresh_process)
   \<and> ModuleRunner_results
        (projr (ModuleRunner_run (run_descriptor spam_setup_call) spam_runner fresh_process))
      = Inl (AttributeError ''class_metadata'')"
proof -
  note init = spam_init_completes
  have ns: "not_suffixed (filename spam_runner) = Some ''setup''"
    by (simp add: not_suffixed_def spam_runner_def suffix_to_prefix)
  have run: "\<not> isl (ModuleRunner_run (run_descriptor spam_setup_call) spam_runner fresh_process)"
    using init
    by (cases "extract_dist_init spam_raw")
       (simp_all add: ModuleRunner_run_def run_descriptor_def Let_def ns spam_setup_call_def)
  then have eq: "ModuleRunner_run (run_descriptor spam_setup_call) spam_runner fresh_process
      = Inr (projr (ModuleRunner_run (run_descriptor spam_setup_call) spam_runner fresh_process))"
    by simp
  have "extract_dist_cls fresh_process ''class_metadata'' = None"
    by (simp add: fresh_process_def extract_dist_class_def)
  from ModuleRunner_results_misses_handoff [OF eq this] run show ?thesis by simp
qed

subsection \<open>Out-of-process runs\<close>

lemma exit1_with_json_segment:
  "last (py_split (json_marker @ ''{}'') json_marker) = ''{}''"
  by (simp add: py_split_def json_marker_def)

text \<open>
  C2, as stated, fails: a subprocess that exits with status 1 after printing a parseable
  result does not make \<^verbatim>\<open>run\<close> fail. The failure is logged, execution continues and the
  parsed value becomes the result.
\<close>

theorem ExternModuleRunner_run_nonzero_exit_continues:
  "ExternModuleRunner_run lib_exit1_with_json spam_extern_runner =
     ([Error (''Subprocess failed, stdout '' @ json_marker @ ''{}''
              @ '', stderr: warning: something failed'')],
      Inr (spam_extern_runner\<lparr>result_attr := Some (JObj [])\<rparr>))"
proof -
  have dec: "ascii_decode (json_marker @ ''{}'') = Some (json_marker @ ''{}'')"
    by (simp add: ascii_decode_def json_marker_def)
  show ?thesis
    by (simp add: ExternModuleRunner_run_def lib_exit1_with_json_def exit1_with_json_def
        Let_def dec exit1_with_json_segment loads_empty_object_def)
qed

text \<open>
  C2, amended. \<^verbatim>\<open>ExternModuleRunner.run\<close> fails exactly when the captured stdout cannot
  be decoded or the text after the last marker line does not parse; the decoding error
  then escapes to the caller and no result is assigned. A non-zero return code is logged
  as an error and has no other effect: whenever the trailing text parses, \<^verbatim>\<open>run\<close> completes
  and assigns the parsed value.
\<close>

theorem ExternModuleRunner_run_outcome:
  fixes lib :: sys_lib and self :: extern_runner
  defines "proc \<equiv> popen lib (command_line lib self) (dirname self)"
  defines "out \<equiv> ExternModuleRunner_run lib self"
  shows "(returncode proc \<noteq> 0 \<longrightarrow> (\<exists>msg. fst out = [Error msg]))
       \<and> (returncode proc = 0 \<longrightarrow> fst out = [])
       \<and> (utf8_decode lib (stdout proc) = None \<longrightarrow> snd out = Inl UnicodeDecodeError)
       \<and> (\<forall>text. utf8_decode lib (stdout proc) = Some text
             \<longrightarrow> json_loads lib (last (py_split text json_marker)) = None
             \<longrightarrow> snd out = Inl JSONDecodeError)
       \<and> (\<forall>text j. utf8_decode lib (stdout proc) = Some text
             \<longrightarrow> json_loads lib (last (py_split text json_marker)) = Some j
             \<longrightarrow> snd out = Inr (self\<lparr>result_attr := Some j\<rparr>))"
  unfolding proc_def out_def
  by (simp add: ExternModuleRunner_run_def Let_def split: option.splits)

theorem ExternModuleRunner_run_outcome_witness:
  "snd (ExternModuleRunner_run lib_exit1_no_output spam_extern_runner) = Inl JSONDecodeError
   \<and> (\<exists>msg. fst (ExternModuleRunner_run lib_exit1_no_output spam_extern_runner) = [Error msg])
   \<and> snd (ExternModuleRunner_run lib_exit1_with_json spam_extern_runner)
       = Inr (spam_extern_runner\<lparr>result_attr := Some (JObj [])\<rparr>)"
proof -
  have dec0: "utf8_decode lib_exit1_no_output
      (stdout (popen lib_exit1_no_output (command_line lib_exit1_no_output spam_extern_runner)
         (dirname spam_extern_runner))) = Some []"
    by (simp add: lib_exit1_no_output_def exit1_no_output_def ascii_decode_def)
  have seg0: "json_loads lib_exit1_no_output (last (py_split [] json_marker)) = None"
    by (simp add: lib_exit1_no_output_def loads_empty_object_def py_split_def)
  have rc0: "returncode (popen lib_exit1_no_output
      (command_line lib_exit1_no_output spam_extern_runner) (dirname spam_extern_runner)) \<noteq> 0"
    by (simp add: lib_exit1_no_output_def exit1_no_output_def)
  have dec1: "utf8_decode lib_exit1_with_json
      (stdout (popen lib_exit1_with_json (command_line lib_exit1_with_json spam_extern_runner)
         (dirname spam_extern_runner))) = Some (json_marker @ ''{}'')"
    by (simp add: lib_exit1_with_json_def exit1_with_json_def ascii_decode_def json_marker_def)
  have seg1: "json_loads lib_exit1_with_json (last (py_split (json_marker @ ''{}'') json_marker))
      = Some (JObj [])"
    by (simp add: lib_exit1_with_json_def loads_empty_object_def exit1_with_json_segment)
  from ExternModuleRunner_run_outcome [of lib_exit1_no_output spam_extern_runner]
    ExternModuleRunner_run_outcome [of lib_exit1_with_json spam_extern_runner]
    dec0 seg0 rc0 dec1 seg1
  show ?thesis by blast
qed

subsection \<open>Splitting documentation files\<close>

lemma separate_license_files_filters:
  "separate_license_files st docs =
     (filter (\<lambda>doc. \<not> (\<exists>s \<in> set (LICENSE_FILES st). py_in_str s (py_lower doc))) docs,
      filter (\<lambda>doc. \<exists>s \<in> set (LICENSE_FILES st). py_in_str s (py_lower doc)) docs)"
  by (simp add: separate_license_files_def Let_def list_all_iff list_ex_iff)

text \<open>
  C7. \<^verbatim>\<open>separate_license_files\<close> splits the candidates into those whose lower-cased name
  contains one of the license markers (the licenses) and all the others, both in their
  original order: every candidate, with its multiplicity, is in exactly one of the two
  lists. The code lower-cases the candidate only, so the match is case-insensitive for
  markers that are configured in lower case, as those of the example are. The witness is
  the example: candidates \<^verbatim>\<open>["LICENSE.txt","README.rst","COPYING"]\<close> with markers
  \<^verbatim>\<open>license\<close> and \<^verbatim>\<open>copying\<close>.
\<close>

theorem separate_license_files_partition:
  assumes "\<forall>s \<in> set (LICENSE_FILES st). py_lower s = s"
  shows "separate_license_files st docs =
           (filter (\<lambda>doc. \<not> (\<exists>s \<in> set (LICENSE_FILES st). py_in_str (py_lower s) (py_lower doc))) docs,
            filter (\<lambda>doc. \<exists>s \<in> set (LICENSE_FILES st). py_in_str (py_lower s) (py_lower doc)) docs)
       \<and> mset (fst (separate_license_files st docs)) + mset (snd (separate_license_files st docs))
           = mset docs
       \<and> set (fst (separate_license_files st docs)) \<inter> set (snd (separate_license_files st docs)) = {}"
proof -
  have eq: "(\<exists>s \<in> set (LICENSE_FILES st). py_in_str s (py_lower doc))
        \<longleftrightarrow> (\<exists>s \<in> set (LICENSE_FILES st). py_in_str (py_lower s) (py_lower doc))" for doc
    using assms by auto
  have 1: "separate_license_files st docs =
           (filter (\<lambda>doc. \<not> (\<exists>s \<in> set (LICENSE_FILES st). py_in_str (py_lower s) (py_lower doc))) docs,
            filter (\<lambda>doc. \<exists>s \<in> set (LICENSE_FILES st). py_in_str (py_lower s) (py_lower doc)) docs)"
    by (simp only: separate_license_files_filters eq)
  have 2: "mset (fst (separate_license_files st docs)) + mset (snd (separate_license_files st docs))
           = mset docs"
    by (simp add: separate_license_files_filters add.commute)
  have 3: "set (fst (separate_license_files st docs)) \<inter> set (snd (separate_license_files st docs)) = {}"
    by (auto simp: separate_license_files_filters)
  from 1 2 3 show ?thesis by blast
qed

theorem separate_license_files_partition_witness:
  "separate_license_files spec_settings [''LICENSE.txt'', ''README.rst'', ''COPYING'']
      = ([''README.rst''], [''LICENSE.txt'', ''COPYING''])
   \<and> mset [''README.rst''] + mset [''LICENSE.txt'', ''COPYING'']
      = mset [''LICENSE.txt'', ''README.rst'', ''COPYING'']"
proof -
  have low: "\<forall>s \<in> set (LICENSE_FILES spec_settings). py_lower s = s"
    by (simp add: spec_settings_def py_lower_def lower_char_def)
  have ev: "separate_license_files spec_settings [''LICENSE.txt'', ''README.rst'', ''COPYING'']
      = ([''README.rst''], [''LICENSE.txt'', ''COPYING''])"
    by (simp add: separate_license_files_def spec_settings_def py_lower_def lower_char_def Let_def)
  from separate_license_files_partition [OF low, of "[''LICENSE.txt'', ''README.rst'', ''COPYING'']"] ev
  show ?thesis by simp
qed

subsection \<open>Requirement groups of a wheel\<close>

lemma extend_requires_kept:
  "\<forall>g \<in> set gs. \<not> win_in_environment g \<longrightarrow> requires g \<noteq> None \<Longrightarrow>
   extend_requires gs acc =
     Inr (acc @ concat (map (\<lambda>g. the (requires g)) (filter (\<lambda>g. \<not> win_in_environment g) gs)))"
  by (induction gs arbitrary: acc) auto

lemma get_requires_loop_kept:
  "\<forall>n \<in> set names. \<forall>g \<in> set (dict_get meta n []). \<not> win_in_environment g \<longrightarrow> requires g \<noteq> None \<Longrightarrow>
   get_requires_loop meta names acc =
     Inr (acc @ concat (map (\<lambda>g. the (requires g))
                 (filter (\<lambda>g. \<not> win_in_environment g) (concat (map (\<lambda>n. dict_get meta n []) names)))))"
  by (induction names arbitrary: acc) (auto simp: extend_requires_kept)

text \<open>
  C9. \<^verbatim>\<open>get_requires\<close> keeps a group unless the text of its environment marker contains
  \<^verbatim>\<open>win\<close>. On the sample metadata it drops the group that is scoped to Windows and also
  the group marked \<^verbatim>\<open>sys_platform != "win32"\<close>, which applies to every platform except
  Windows: \<^verbatim>\<open>pexpect\<close> is lost although its group is not scoped to the excluded
  environment.
\<close>

theorem get_requires_drops_non_windows_group:
  "get_requires ipython_metadata [''run_requires'', ''meta_requires'']
     = Inr [''decorator'', ''pickleshare'']"
  by (simp add: get_requires_def ipython_metadata_def dict_get_def win_in_environment_def
      win32_marker_def)

subsection \<open>The sample archive\<close>





subsection \<open>The setuptools dependency\<close>







subsection \<open>The overlays\<close>

lemma pypi_metadata_extension_absorbs:
  assumes "extraction_fce self = (log, Inr data)"
    and "cl = None \<or> (\<exists>c e. cl = Some c \<and> release_data c (name self) (version self) = Inl e)"
  shows "pypi_metadata_extension st h extraction_fce self cl =
           (log @ [Warning ''Some kind of error while communicating with client''], Inr data)"
  using assms by (auto simp: pypi_metadata_extension_def Let_def)

text \<open>
  C3. A missing client and a failure of \<^verbatim>\<open>release_data\<close> are absorbed (lemma above). The
  second exchange with the registry is not: when \<^verbatim>\<open>release_data\<close> has answered and
  \<^verbatim>\<open>get_url\<close> then raises, the exception leaves the overlay and no record is returned.
\<close>

theorem pypi_metadata_extension_get_url_escapes:
  assumes "extraction_fce self = (log, Inr data)"
    and "release_data c (name self) (version self) = Inr release"
    and "get_url h c (name self) (version self) = Inl e"
  shows "pypi_metadata_extension st h extraction_fce self (Some c) = (log, Inl e)"
  using assms by (simp add: pypi_metadata_extension_def Let_def)

theorem pypi_metadata_extension_get_url_escapes_witness:
  "pypi_metadata_extension spec_settings sample_helpers bare_extraction spam_extractor
     (Some spam_client)
   = ([], Inl (MissingUrlException ''Url of source archive not found.''))"
proof -
  have 1: "bare_extraction spam_extractor =
      ([], Inr (PackageData ''spam-1.0.tar.gz'' ''spam'' ''python-spam'' ''1.0''))"
    by (simp add: bare_extraction_def spam_extractor_def)
  have 2: "release_data spam_client (name spam_extractor) (version spam_extractor)
      = Inr [''summary'' \<mapsto> FStr ''Spam'', ''home_page'' \<mapsto> FStr ''http://spam.example'']"
    by (simp add: spam_client_def)
  have 3: "get_url sample_helpers spam_client (name spam_extractor) (version spam_extractor)
      = Inl (MissingUrlException ''Url of source archive not found.'')"
    by (simp add: sample_helpers_def)
  from pypi_metadata_extension_get_url_escapes
    [where extraction_fce = bare_extraction and self = spam_extractor, OF 1 2 3]
  show ?thesis .
qed



subsection \<open>The package fallback\<close>











subsection \<open>Shortening the description\<close>


lemma find_at_none: "c \<notin> set s \<Longrightarrow> find_at [c] s k = None"
  by (induction s arbitrary: k) auto


lemma py_find_none:
  assumes "\<forall>i. start \<le> i \<and> i < length text \<longrightarrow> text ! i \<noteq> c"
  shows "py_find text [c] start = None"
proof (cases "start \<le> length text")
  case True
  have "c \<notin> set (drop start text)"
  proof
    assume "c \<in> set (drop start text)"
    then obtain j where "j < length (drop start text)" "drop start text ! j = c"
      by (auto simp: in_set_conv_nth)
    with True assms show False by (auto simp: add.commute)
  qed
  with True show ?thesis by (simp add: py_find_def find_at_none)
next
  case False
  then show ?thesis by (simp add: py_find_def)
qed


text \<open>
  The cleaned text is the wrapped lines joined by single spaces. Python's
  \<^verbatim>\<open>textwrap.wrap\<close> returns lines without line feeds, and for every such wrapping function
  the joined text has none either: on the text that \<^verbatim>\<open>process_description\<close> really
  produces the second case applies, whatever the length. The first case is exercised
  below with a wrapping function that leaves the text as it is.
\<close>

lemma py_join_space_no_LF:
  "\<forall>l \<in> set ls. CHR 0x0A \<notin> set l \<Longrightarrow> CHR 0x0A \<notin> set (py_join '' '' ls)"
  by (induction "'' ''" ls rule: py_join.induct) auto

lemma SetupPy_description_whole_when_wrapped:
  assumes "\<And>text. \<forall>l \<in> set (textwrap_wrap tx text 80). CHR 0x0A \<notin> set l"
  shows "SetupPy_description tx dist = SetupPy_long_description tx dist"
proof -
  have "CHR 0x0A \<notin> set (SetupPy_long_description tx dist)"
    unfolding SetupPy_long_description_def process_description_def Let_def
    by (rule py_join_space_no_LF) (rule assms)
  then have "\<forall>i. 640 \<le> i \<and> i < length (SetupPy_long_description tx dist)
               \<longrightarrow> SetupPy_long_description tx dist ! i \<noteq> CHR 0x0A"
    by (auto simp: in_set_conv_nth)
  then have "py_find (SetupPy_long_description tx dist) [CHR 0x0A] 640 = None"
    by (rule py_find_none)
  then show ?thesis by (simp add: SetupPy_description_def LF_def)
qed


end
